theory Spec2Isabelle
  imports Main
begin

section \<open>Python values seen by the type transpiler\<close>

text \<open>
  The transpiler of \<^verbatim>\<open>rests/typescript/type_transpiler.py\<close> inspects arbitrary Python
  objects: classes, instances of classes (model fields, plain values), \<^verbatim>\<open>None\<close>, tuples
  and parameterised typing descriptors. A class is identified by its name, which is also
  what \<^verbatim>\<open>__name__\<close> returns; it carries the names of its proper ancestors (the tail of
  its method resolution order), which is all that \<^verbatim>\<open>issubclass\<close> and \<^verbatim>\<open>isinstance\<close> read.
  Distinct classes are taken to have distinct names: a class of the caller that bears the
  name of a key of a table without being that key is not among the values modelled.
\<close>

datatype pyclass = Class (cname: string) (ancestors: "string list")

text \<open>
  \<open>PSpecial\<close> stands for a special form of the typing module (\<^verbatim>\<open>Union\<close>, \<^verbatim>\<open>List\<close>, ...):
  a hashable object that is neither a class nor an instance with attributes.
  \<open>PInst\<close> is an instance of a class with its attributes; it has the default truth value,
  hash and equality of Python objects and is not iterable. \<open>PGeneric\<close> is a parameterised
  descriptor: an origin marker with its ordered child descriptors. An instance of a
  subclass of \<^verbatim>\<open>str\<close>, \<^verbatim>\<open>tuple\<close>, \<^verbatim>\<open>list\<close> or \<^verbatim>\<open>dict\<close> is written with the constructor of
  that builtin. The type of every class object is taken to be \<^verbatim>\<open>type\<close>: a metaclass
  such as the one of the model classes is a subclass of \<^verbatim>\<open>type\<close> and no key of a table.
\<close>

datatype pyval =
    PNone
  | PStr string
  | PClass pyclass
  | PSpecial string
  | PInst pyclass "(string \<times> pyval) list"
  | PTuple "pyval list"
  | PList "pyval list"
  | PDict "(pyval \<times> pyval) list"
  | PGeneric pyval "pyval list"

text \<open>Every exception the transpiler can raise is a value of this type.\<close>

datatype error =
    TranspileError pyval
  | TypeError
  | IndexError
  | AttributeError
  | KeyError

subsection \<open>Builtins used by the transpiler\<close>

text \<open>\<^verbatim>\<open>type(x)\<close> for an object that is not a class.\<close>

fun type_of :: "pyval \<Rightarrow> pyclass" where
  "type_of PNone = Class ''NoneType'' [''object'']"
| "type_of (PStr s) = Class ''str'' [''object'']"
| "type_of (PClass c) = Class ''type'' [''object'']"
| "type_of (PSpecial n) = Class ''_SpecialForm'' [''object'']"
| "type_of (PInst c attrs) = c"
| "type_of (PTuple ts) = Class ''tuple'' [''object'']"
| "type_of (PList ts) = Class ''list'' [''object'']"
| "type_of (PDict kvs) = Class ''dict'' [''object'']"
| "type_of (PGeneric origin args) = Class ''_GenericAlias'' [''object'']"

text \<open>
  The class that \<^verbatim>\<open>render_atomic_type\<close> starts from: the descriptor itself when
  \<^verbatim>\<open>inspect.isclass\<close> holds of it, its type otherwise.
\<close>

fun base_class :: "pyval \<Rightarrow> pyclass" where
  "base_class (PClass c) = c"
| "base_class v = type_of v"

text \<open>\<^verbatim>\<open>issubclass(c, k)\<close>, the class \<open>k\<close> given by its name.\<close>

definition issubclass :: "pyclass \<Rightarrow> string \<Rightarrow> bool" where
  "issubclass c k = (k = cname c \<or> k \<in> set (ancestors c))"

text \<open>\<^verbatim>\<open>isinstance(v, k)\<close>, the class \<open>k\<close> given by its name.\<close>

definition isinstance :: "pyval \<Rightarrow> string \<Rightarrow> bool" where
  "isinstance v k = issubclass (type_of v) k"

text \<open>\<^verbatim>\<open>isinstance(v, tuple)\<close>.\<close>

fun is_tuple :: "pyval \<Rightarrow> bool" where
  "is_tuple (PTuple ts) = True"
| "is_tuple v = False"

text \<open>
  Lists and dicts cannot be hashed, so they cannot be looked up in a dict. Every \<open>PInst\<close>
  is hashable: an instance whose \<^verbatim>\<open>__hash__\<close> raises (a model instance without a primary
  key) is not among the values modelled.
\<close>

fun hashable :: "pyval \<Rightarrow> bool" where
  "hashable (PList ts) = False"
| "hashable (PDict kvs) = False"
| "hashable (PTuple ts) = list_all hashable ts"
| "hashable v = True"

text \<open>The truth value of an object, as \<^verbatim>\<open>not x\<close> reads it.\<close>

fun truthy :: "pyval \<Rightarrow> bool" where
  "truthy PNone = False"
| "truthy (PStr s) = (s \<noteq> [])"
| "truthy (PTuple ts) = (ts \<noteq> [])"
| "truthy (PList ts) = (ts \<noteq> [])"
| "truthy (PDict kvs) = (kvs \<noteq> [])"
| "truthy v = True"

text \<open>
  What a \<^verbatim>\<open>for\<close> loop iterates over: the elements of a tuple or a list, the keys of a
  dict, the characters of a string (each a string of length one); \<open>None\<close> for an object
  that is not iterable, where Python raises \<^verbatim>\<open>TypeError\<close>.
\<close>

fun iter :: "pyval \<Rightarrow> pyval list option" where
  "iter (PTuple ts) = Some ts"
| "iter (PList ts) = Some ts"
| "iter (PDict kvs) = Some (map fst kvs)"
| "iter (PStr s) = Some (map (\<lambda>ch. PStr [ch]) s)"
| "iter v = None"

text \<open>Attribute access \<^verbatim>\<open>x.a\<close> on an instance, and \<^verbatim>\<open>x.__name__\<close>.\<close>

fun getattr :: "pyval \<Rightarrow> string \<Rightarrow> error + pyval" where
  "getattr (PInst c attrs) a =
     (case map_of attrs a of None \<Rightarrow> Inl AttributeError | Some v \<Rightarrow> Inr v)"
| "getattr v a = Inl AttributeError"

fun dunder_name :: "pyval \<Rightarrow> error + string" where
  "dunder_name (PClass c) = Inr (cname c)"
| "dunder_name v = Inl AttributeError"

text \<open>\<^verbatim>\<open>sep.join(xs)\<close> on strings.\<close>

fun join :: "string \<Rightarrow> string list \<Rightarrow> string" where
  "join sep [] = []"
| "join sep [x] = x"
| "join sep (x # y # ys) = x @ sep @ join sep (y # ys)"

text \<open>
  \<^verbatim>\<open>sep.join(xs)\<close> on the results of the dispatcher, which are strings or \<^verbatim>\<open>None\<close>:
  \<^verbatim>\<open>join\<close> raises \<^verbatim>\<open>TypeError\<close> on an item that is not a string.
\<close>

definition py_join :: "string \<Rightarrow> string option list \<Rightarrow> error + string" where
  "py_join sep xs = (if list_all (\<lambda>x. x \<noteq> None) xs then Inr (join sep (map the xs)) else Inl TypeError)"

text \<open>How an f-string formats a result of the dispatcher.\<close>

fun fmt :: "string option \<Rightarrow> string" where
  "fmt (Some s) = s"
| "fmt None = ''None''"

text \<open>
  The results of a list comprehension whose items can raise: the first exception, in
  order, is the one that propagates.
\<close>

fun sequence :: "(error + 'a) list \<Rightarrow> error + 'a list" where
  "sequence [] = Inr []"
| "sequence (Inl e # rs) = Inl e"
| "sequence (Inr v # rs) = (case sequence rs of Inl e \<Rightarrow> Inl e | Inr vs \<Rightarrow> Inr (v # vs))"

section \<open>The registry tables\<close>

text \<open>
  Modelled from the spec: the module \<^verbatim>\<open>rests.typescript.types\<close> (the target-language
  tokens and the classes \<^verbatim>\<open>Undefined\<close> and \<^verbatim>\<open>Promise\<close>) is not among the sources. The
  spec names the tokens for string, number, boolean, object, array, null, undefined,
  promise and date, and shows \<^verbatim>\<open>Array<string | null>\<close> and \<^verbatim>\<open>[number, number]\<close>.
\<close>

definition STRING :: string where "STRING = ''string''"
definition NUMBER :: string where "NUMBER = ''number''"
definition BOOLEAN :: string where "BOOLEAN = ''boolean''"
definition OBJECT :: string where "OBJECT = ''object''"
definition NULL :: string where "NULL = ''null''"
definition DATE :: string where "DATE = ''Date''"
definition UNDEFINED :: string where "UNDEFINED = ''undefined''"
definition ARRAY :: string where "ARRAY = ''Array''"
definition PROMISE :: string where "PROMISE = ''Promise''"

text \<open>
  A renderer of the atomic table is a literal string or a function of the descriptor;
  \<^verbatim>\<open>hasattr(r, "__call__")\<close> tells them apart.
\<close>

datatype renderer = Literal string | Callable "pyval \<Rightarrow> error + string"

text \<open>\<^verbatim>\<open>lambda x: x.related_model.__name__\<close> and \<^verbatim>\<open>lambda x: x.__name__\<close>.\<close>

definition related_model_name :: "pyval \<Rightarrow> error + string" where
  "related_model_name x =
     (case getattr x ''related_model'' of Inl e \<Rightarrow> Inl e | Inr m \<Rightarrow> dunder_name m)"

definition class_name :: "pyval \<Rightarrow> error + string" where
  "class_name x = dunder_name x"

text \<open>
  \<^verbatim>\<open>ATOMIC_TYPES\<close>, in the order of the dict literal. A key is a class, given by its
  name, or \<^verbatim>\<open>None\<close>.
\<close>

definition ATOMIC_TYPES :: "(string option \<times> renderer) list" where
  "ATOMIC_TYPES =
    [(Some ''str'', Literal STRING),
     (Some ''int'', Literal NUMBER),
     (Some ''float'', Literal NUMBER),
     (Some ''bool'', Literal BOOLEAN),
     (Some ''dict'', Literal OBJECT),
     (None, Literal NULL),
     (Some ''datetime'', Literal DATE),
     (Some ''Undefined'', Literal UNDEFINED),
     (Some ''JSONField'', Literal OBJECT),
     (Some ''ArrayField'', Literal ARRAY),
     (Some ''CharField'', Literal STRING),
     (Some ''FileField'', Literal STRING),
     (Some ''TextField'', Literal STRING),
     (Some ''UUIDField'', Literal STRING),
     (Some ''SlugField'', Literal STRING),
     (Some ''SmallIntegerField'', Literal STRING),
     (Some ''BigIntegerField'', Literal NUMBER),
     (Some ''EmailField'', Literal STRING),
     (Some ''URLField'', Literal STRING),
     (Some ''IntegerField'', Literal NUMBER),
     (Some ''PositiveIntegerField'', Literal NUMBER),
     (Some ''PositiveSmallIntegerField'', Literal NUMBER),
     (Some ''DecimalField'', Literal NUMBER),
     (Some ''FloatField'', Literal NUMBER),
     (Some ''AutoField'', Literal NUMBER),
     (Some ''BigAutoField'', Literal NUMBER),
     (Some ''BooleanField'', Literal BOOLEAN),
     (Some ''NullBooleanField'', Literal (BOOLEAN @ '' | '' @ NULL)),
     (Some ''DateTimeField'', Literal DATE),
     (Some ''DateField'', Literal DATE),
     (Some ''ForeignKey'', Callable related_model_name),
     (Some ''OneToOneField'', Callable related_model_name),
     (Some ''ManyToOneRel'', Callable related_model_name),
     (Some ''Model'', Callable class_name)]"

text \<open>
  The keys of the container and composite tables are classes and typing special forms;
  a dict finds a key by hash and equality, which for these objects is identity.
\<close>

datatype ident = IdClass string | IdSpecial string

fun ident_of :: "pyval \<Rightarrow> ident option" where
  "ident_of (PClass c) = Some (IdClass (cname c))"
| "ident_of (PSpecial n) = Some (IdSpecial n)"
| "ident_of v = None"

text \<open>\<^verbatim>\<open>CONTAINER_TYPES\<close>: each renderer is an f-string around the rendered child.\<close>

definition CONTAINER_TYPES :: "(ident \<times> (string option \<Rightarrow> string)) list" where
  "CONTAINER_TYPES =
    [(IdSpecial ''List'', \<lambda>x. ARRAY @ ''<'' @ fmt x @ ''>''),
     (IdClass ''Promise'', \<lambda>x. PROMISE @ ''<'' @ fmt x @ ''>''),
     (IdClass ''In'', \<lambda>x. fmt x @ ''[]''),
     (IdClass ''RelatedIn'', \<lambda>x. fmt x @ ''[]''),
     (IdClass ''Range'', \<lambda>x. ''['' @ fmt x @ '', '' @ fmt x @ '']'')]"

text \<open>\<^verbatim>\<open>COMPOSITE_TYPES\<close>: each renderer joins the rendered children.\<close>

definition COMPOSITE_TYPES :: "(ident \<times> (string option list \<Rightarrow> error + string)) list" where
  "COMPOSITE_TYPES =
    [(IdClass ''tuple'', py_join '', ''),
     (IdSpecial ''Union'', py_join '' | '')]"

text \<open>\<^verbatim>\<open>x in table\<close> and \<^verbatim>\<open>table[x]\<close> for a hashable object \<open>x\<close>.\<close>

definition lookup :: "(ident \<times> 'r) list \<Rightarrow> pyval \<Rightarrow> 'r option" where
  "lookup table x = (case ident_of x of None \<Rightarrow> None | Some i \<Rightarrow> map_of table i)"

section \<open>The type transpiler\<close>

text \<open>
  \<^verbatim>\<open>_get_atomic_type\<close>: the loop over the keys of the atomic table, in order. The key
  \<^verbatim>\<open>None\<close> is skipped; the first class the descriptor is an instance of is returned;
  when the keys run out, \<^verbatim>\<open>TranspileError\<close> is raised with the descriptor.
\<close>

fun scan_atomic :: "string option list \<Rightarrow> pyval \<Rightarrow> error + string" where
  "scan_atomic [] t = Inl (TranspileError t)"
| "scan_atomic (None # ks) t = scan_atomic ks t"
| "scan_atomic (Some k # ks) t = (if isinstance t k then Inr k else scan_atomic ks t)"

definition get_atomic_type' :: "pyval \<Rightarrow> error + string" where
  "get_atomic_type' t = scan_atomic (map fst ATOMIC_TYPES) t"

text \<open>
  \<^verbatim>\<open>render_atomic_type\<close>, lines 91 to 97: the key under which the descriptor is rendered.
\<close>

definition base_type :: "pyval \<Rightarrow> error + string" where
  "base_type t =
     (if issubclass (base_class t) ''Model'' then Inr ''Model'' else get_atomic_type' t)"

text \<open>\<^verbatim>\<open>render_atomic_type\<close>: the renderer of the key, applied to the descriptor when callable.\<close>

definition render_atomic_type :: "pyval \<Rightarrow> error + string" where
  "render_atomic_type t =
     (case base_type t of
        Inl e \<Rightarrow> Inl e
      | Inr k \<Rightarrow>
          (case map_of ATOMIC_TYPES (Some k) of
             None \<Rightarrow> Inl KeyError
           | Some (Callable f) \<Rightarrow> f t
           | Some (Literal s) \<Rightarrow> Inr s))"

text \<open>An atomic rendering as a result of the dispatcher, which returns a string or \<^verbatim>\<open>None\<close>.\<close>

definition atomic :: "pyval \<Rightarrow> error + string option" where
  "atomic t = map_sum id Some (render_atomic_type t)"

lemma iter_size: "iter c = Some cs \<Longrightarrow> x \<in> set cs \<Longrightarrow> size x < Suc (size c)"
proof (cases c)
  case (PTuple ts)
  assume "iter c = Some cs" "x \<in> set cs"
  with PTuple have "x \<in> set ts" by simp
  then have "size x \<le> size_list size ts" by (induction ts) auto
  with PTuple show ?thesis by simp
next
  case (PList ts)
  assume "iter c = Some cs" "x \<in> set cs"
  with PList have "x \<in> set ts" by simp
  then have "size x \<le> size_list size ts" by (induction ts) auto
  with PList show ?thesis by simp
next
  case (PDict kvs)
  assume "iter c = Some cs" "x \<in> set cs"
  with PDict obtain v where "(x, v) \<in> set kvs" by auto
  then have "size x \<le> size_list (size_prod size size) kvs" by (induction kvs) auto
  with PDict show ?thesis by simp
qed auto

text \<open>
  \<^verbatim>\<open>_transpile\<close>, the recursive dispatcher. A node is a raw descriptor or a tuple. Falling
  off the end of the Python function returns \<^verbatim>\<open>None\<close>, here \<open>Inr None\<close>.
\<close>

function (sequential) transpile' :: "pyval \<Rightarrow> error + string option" where
  "transpile' (PTuple []) = Inl IndexError"
| "transpile' (PTuple (h # rest)) =
     (if is_tuple h then transpile' h
      else if \<not> hashable h then Inl TypeError
      else
        (case lookup COMPOSITE_TYPES h of
           Some f \<Rightarrow>
             (case rest of
                [] \<Rightarrow> Inl IndexError
              | c # _ \<Rightarrow>
                  (case iter c of
                     None \<Rightarrow> Inl TypeError
                   | Some cs \<Rightarrow>
                       (case sequence (map transpile' cs) of
                          Inl e \<Rightarrow> Inl e
                        | Inr rs \<Rightarrow> map_sum id Some (f rs))))
         | None \<Rightarrow>
             (case lookup CONTAINER_TYPES h of
                Some g \<Rightarrow>
                  (case rest of
                     [] \<Rightarrow> Inl IndexError
                   | c # _ \<Rightarrow>
                       (case transpile' c of
                          Inl e \<Rightarrow> Inl e
                        | Inr r \<Rightarrow> Inr (Some (g r))))
              | None \<Rightarrow>
                  (if length (h # rest) = 1 then atomic h else Inr None))))"
| "transpile' t = atomic t"
  by pat_completeness auto
termination
  by (relation "measure size") (auto dest: iter_size)

section \<open>The introspection facility and the entry point\<close>

text \<open>
  Modelled from the spec: \<^verbatim>\<open>get_origin\<close> and \<^verbatim>\<open>get_args\<close> of
  \<^verbatim>\<open>rests.core.utils.typing_inspect\<close> are not among the sources. By the spec the
  introspection facility returns, for a descriptor, an origin marker (absent for a
  descriptor that is not parameterised) and the ordered sequence of its child descriptors.
\<close>

fun get_origin :: "pyval \<Rightarrow> pyval" where
  "get_origin (PGeneric origin args) = origin"
| "get_origin t = PNone"

fun get_args :: "pyval \<Rightarrow> pyval" where
  "get_args (PGeneric origin args) = PTuple args"
| "get_args t = PTuple []"

text \<open>\<^verbatim>\<open>transpile\<close>, the public entry point.\<close>

definition transpile :: "pyval \<Rightarrow> error + string option" where
  "transpile t =
     (let origin_type = get_origin t; child_types = get_args t
      in if \<not> truthy origin_type then atomic t
         else transpile' (PTuple [origin_type, child_types]))"

section \<open>The registry as state\<close>

text \<open>
  The three tables are attributes of the class \<^verbatim>\<open>TypeTranspiler\<close>: mutable dicts that
  every call reaches through \<^verbatim>\<open>cls\<close>. To state what a call does to them, the transpiler
  is written once more with the tables as a state that each method takes and returns;
  a Python statement that reads a table returns the state as it found it.
\<close>

record registry =
  atomic_types :: "(string option \<times> renderer) list"
  container_types :: "(ident \<times> (string option \<Rightarrow> string)) list"
  composite_types :: "(ident \<times> (string option list \<Rightarrow> error + string)) list"

text \<open>The tables as the class body defines them.\<close>

definition REGISTRY :: registry where
  "REGISTRY = \<lparr>atomic_types = ATOMIC_TYPES, container_types = CONTAINER_TYPES,
     composite_types = COMPOSITE_TYPES\<rparr>"

text \<open>\<^verbatim>\<open>_get_atomic_type\<close>: the loop over \<^verbatim>\<open>cls.ATOMIC_TYPES.keys()\<close>.\<close>

definition get_atomic_type_st :: "pyval \<Rightarrow> registry \<Rightarrow> (error + string) \<times> registry" where
  "get_atomic_type_st t cls = (scan_atomic (map fst (atomic_types cls)) t, cls)"

text \<open>\<^verbatim>\<open>render_atomic_type\<close>: the key, then \<^verbatim>\<open>cls.ATOMIC_TYPES[base_type]\<close>.\<close>

definition render_atomic_type_st :: "pyval \<Rightarrow> registry \<Rightarrow> (error + string) \<times> registry" where
  "render_atomic_type_st t cls =
     (case (if issubclass (base_class t) ''Model'' then (Inr ''Model'', cls)
            else get_atomic_type_st t cls) of
        (Inl e, cls1) \<Rightarrow> (Inl e, cls1)
      | (Inr k, cls1) \<Rightarrow>
          (case map_of (atomic_types cls1) (Some k) of
             None \<Rightarrow> (Inl KeyError, cls1)
           | Some (Callable f) \<Rightarrow> (f t, cls1)
           | Some (Literal s) \<Rightarrow> (Inr s, cls1)))"

definition atomic_st :: "pyval \<Rightarrow> registry \<Rightarrow> (error + string option) \<times> registry" where
  "atomic_st t cls = (case render_atomic_type_st t cls of (r, cls1) \<Rightarrow> (map_sum id Some r, cls1))"

text \<open>
  The list comprehension of the composite branch: the children are dispatched in order,
  each call starting from the state the one before it left; the first exception ends it.
\<close>

fun each_st :: "('a \<Rightarrow> registry \<Rightarrow> (error + 'b) \<times> registry) \<Rightarrow> 'a list \<Rightarrow> registry
    \<Rightarrow> (error + 'b list) \<times> registry" where
  "each_st f [] cls = (Inr [], cls)"
| "each_st f (x # xs) cls =
     (case f x cls of
        (Inl e, cls1) \<Rightarrow> (Inl e, cls1)
      | (Inr v, cls1) \<Rightarrow>
          (case each_st f xs cls1 of
             (Inl e, cls2) \<Rightarrow> (Inl e, cls2)
           | (Inr vs, cls2) \<Rightarrow> (Inr (v # vs), cls2)))"

lemma each_st_cong [fundef_cong]:
  "xs = ys \<Longrightarrow> cls = cls' \<Longrightarrow> (\<And>x c. x \<in> set ys \<Longrightarrow> f x c = g x c)
     \<Longrightarrow> each_st f xs cls = each_st g ys cls'"
proof (induction ys arbitrary: xs cls cls')
  case Nil
  then show ?case by simp
next
  case (Cons y ys)
  have "each_st f ys c = each_st g ys c" for c
    by (rule Cons.IH) (simp_all add: Cons.prems)
  with Cons.prems show ?case by (simp split: prod.splits sum.splits)
qed

text \<open>\<^verbatim>\<open>_transpile\<close> with the tables read from the state.\<close>

function (sequential) transpile_st' ::
    "pyval \<Rightarrow> registry \<Rightarrow> (error + string option) \<times> registry" where
  "transpile_st' (PTuple []) cls = (Inl IndexError, cls)"
| "transpile_st' (PTuple (h # rest)) cls =
     (if is_tuple h then transpile_st' h cls
      else if \<not> hashable h then (Inl TypeError, cls)
      else
        (case lookup (composite_types cls) h of
           Some f \<Rightarrow>
             (case rest of
                [] \<Rightarrow> (Inl IndexError, cls)
              | c # _ \<Rightarrow>
                  (case iter c of
                     None \<Rightarrow> (Inl TypeError, cls)
                   | Some cs \<Rightarrow>
                       (case each_st transpile_st' cs cls of
                          (Inl e, cls1) \<Rightarrow> (Inl e, cls1)
                        | (Inr rs, cls1) \<Rightarrow> (map_sum id Some (f rs), cls1))))
         | None \<Rightarrow>
             (case lookup (container_types cls) h of
                Some g \<Rightarrow>
                  (case rest of
                     [] \<Rightarrow> (Inl IndexError, cls)
                   | c # _ \<Rightarrow>
                       (case transpile_st' c cls of
                          (Inl e, cls1) \<Rightarrow> (Inl e, cls1)
                        | (Inr r, cls1) \<Rightarrow> (Inr (Some (g r)), cls1)))
              | None \<Rightarrow>
                  (if length (h # rest) = 1 then atomic_st h cls else (Inr None, cls)))))"
| "transpile_st' t cls = atomic_st t cls"
  by pat_completeness auto
termination
  by (relation "measure (\<lambda>(t, cls). size t)") (auto dest: iter_size)

text \<open>\<^verbatim>\<open>transpile\<close> with the tables read from the state.\<close>

definition transpile_st :: "pyval \<Rightarrow> registry \<Rightarrow> (error + string option) \<times> registry" where
  "transpile_st t cls =
     (let origin_type = get_origin t; child_types = get_args t
      in if \<not> truthy origin_type then atomic_st t cls
         else transpile_st' (PTuple [origin_type, child_types]) cls)"

section \<open>Sample descriptors\<close>

text \<open>
  A model class \<^verbatim>\<open>Author\<close>, a foreign key field whose related model it is, a decimal
  value (an instance of a class that is no key of the atomic table), and the builtin
  class \<^verbatim>\<open>str\<close>.
\<close>

definition author_model :: pyval where
  "author_model = PClass (Class ''Author'' [''Model'', ''object''])"

definition author_fk :: pyval where
  "author_fk =
     PInst (Class ''ForeignKey''
              [''ForeignObject'', ''RelatedField'', ''FieldCacheMixin'', ''Field'',
               ''RegisterLookupMixin'', ''object''])
           [(''name'', PStr ''author''), (''related_model'', author_model)]"

definition decimal_value :: pyval where
  "decimal_value = PInst (Class ''Decimal'' [''object'']) []"

definition str_class :: pyval where
  "str_class = PClass (Class ''str'' [''object''])"

section \<open>Lookups in the tables\<close>

lemma lookup_Union: "lookup COMPOSITE_TYPES (PSpecial ''Union'') = Some (py_join '' | '')"
  by (simp add: lookup_def COMPOSITE_TYPES_def)

lemma lookup_List:
  "lookup COMPOSITE_TYPES (PSpecial ''List'') = None"
  "lookup CONTAINER_TYPES (PSpecial ''List'') = Some (\<lambda>x. ARRAY @ ''<'' @ fmt x @ ''>'')"
  by (simp_all add: lookup_def COMPOSITE_TYPES_def CONTAINER_TYPES_def)

lemma lookup_unregistered:
  "lookup COMPOSITE_TYPES (PSpecial ''Literal'') = None"
  "lookup CONTAINER_TYPES (PSpecial ''Literal'') = None"
  "lookup COMPOSITE_TYPES (PSpecial ''Dict'') = None"
  "lookup CONTAINER_TYPES (PSpecial ''Dict'') = None"
  by (simp_all add: lookup_def COMPOSITE_TYPES_def CONTAINER_TYPES_def)

lemma lookup_not_ident: "ident_of x = None \<Longrightarrow> lookup table x = None"
  by (simp add: lookup_def)

section \<open>The scan of the atomic table\<close>

text \<open>When no key is a class of the descriptor, the scan ends with the error.\<close>

lemma scan_atomic_exhausted:
  "(\<forall>k. Some k \<in> set ks \<longrightarrow> \<not> isinstance t k) \<Longrightarrow> scan_atomic ks t = Inl (TranspileError t)"
  by (induction ks t rule: scan_atomic.induct) auto

text \<open>
  First match wins: a key that the descriptor is an instance of is returned when no key
  before it matches, whatever follows it in the table.
\<close>

lemma scan_atomic_first_match:
  "(\<forall>k'. Some k' \<in> set pre \<longrightarrow> \<not> isinstance t k') \<Longrightarrow> isinstance t k
     \<Longrightarrow> scan_atomic (pre @ Some k # post) t = Inr k"
  by (induction pre t rule: scan_atomic.induct) auto

text \<open>The scan returns a key exactly when it is the first one the descriptor is an instance of.\<close>

lemma scan_atomic_Inr_iff:
  "scan_atomic ks t = Inr k \<longleftrightarrow>
     (\<exists>pre post. ks = pre @ Some k # post \<and> isinstance t k
        \<and> (\<forall>k'. Some k' \<in> set pre \<longrightarrow> \<not> isinstance t k'))"
proof
  show "scan_atomic ks t = Inr k \<Longrightarrow> \<exists>pre post. ks = pre @ Some k # post \<and> isinstance t k
        \<and> (\<forall>k'. Some k' \<in> set pre \<longrightarrow> \<not> isinstance t k')"
  proof (induction ks t rule: scan_atomic.induct)
    case (1 t)
    then show ?case by simp
  next
    case (2 ks t)
    then obtain pre post where "ks = pre @ Some k # post" "isinstance t k"
      "\<forall>k'. Some k' \<in> set pre \<longrightarrow> \<not> isinstance t k'" by auto
    then have "None # ks = (None # pre) @ Some k # post \<and> isinstance t k
        \<and> (\<forall>k'. Some k' \<in> set (None # pre) \<longrightarrow> \<not> isinstance t k')" by simp
    then show ?case by blast
  next
    case (3 k0 ks t)
    show ?case
    proof (cases "isinstance t k0")
      case True
      with 3 have "k0 = k" by simp
      with True have "Some k0 # ks = [] @ Some k # ks \<and> isinstance t k
        \<and> (\<forall>k'. Some k' \<in> set [] \<longrightarrow> \<not> isinstance t k')" by simp
      then show ?thesis by blast
    next
      case False
      with 3 obtain pre post where "ks = pre @ Some k # post" "isinstance t k"
        "\<forall>k'. Some k' \<in> set pre \<longrightarrow> \<not> isinstance t k'" by auto
      with False have "Some k0 # ks = (Some k0 # pre) @ Some k # post \<and> isinstance t k
        \<and> (\<forall>k'. Some k' \<in> set (Some k0 # pre) \<longrightarrow> \<not> isinstance t k')" by simp
      then show ?thesis by blast
    qed
  qed
next
  assume "\<exists>pre post. ks = pre @ Some k # post \<and> isinstance t k
        \<and> (\<forall>k'. Some k' \<in> set pre \<longrightarrow> \<not> isinstance t k')"
  then show "scan_atomic ks t = Inr k" using scan_atomic_first_match by blast
qed

text \<open>
  A class object is an instance of \<^verbatim>\<open>type\<close> only, \<^verbatim>\<open>None\<close> of \<^verbatim>\<open>NoneType\<close>, a
  parameterised descriptor of its alias class: none of them is a key of the table.
\<close>

lemma class_never_scanned: "get_atomic_type' (PClass c) = Inl (TranspileError (PClass c))"
  unfolding get_atomic_type'_def
  by (rule scan_atomic_exhausted) (simp add: ATOMIC_TYPES_def isinstance_def issubclass_def)

lemma none_never_scanned: "get_atomic_type' PNone = Inl (TranspileError PNone)"
  unfolding get_atomic_type'_def
  by (rule scan_atomic_exhausted) (simp add: ATOMIC_TYPES_def isinstance_def issubclass_def)

lemma generic_never_scanned:
  "get_atomic_type' (PGeneric origin args) = Inl (TranspileError (PGeneric origin args))"
  unfolding get_atomic_type'_def
  by (rule scan_atomic_exhausted) (simp add: ATOMIC_TYPES_def isinstance_def issubclass_def)

section \<open>Atomic renderings\<close>

lemma atomic_None: "atomic PNone = Inl (TranspileError PNone)"
  by (simp add: atomic_def render_atomic_type_def base_type_def issubclass_def none_never_scanned)

lemma atomic_generic: "atomic (PGeneric origin args) = Inl (TranspileError (PGeneric origin args))"
  by (simp add: atomic_def render_atomic_type_def base_type_def issubclass_def generic_never_scanned)

lemma render_atomic_str: "render_atomic_type (PStr s) = Inr ''string''"
  by (simp add: render_atomic_type_def base_type_def issubclass_def get_atomic_type'_def
      ATOMIC_TYPES_def isinstance_def STRING_def)

lemma atomic_str: "atomic (PStr s) = Inr (Some ''string'')"
  by (simp add: atomic_def render_atomic_str)

lemma atomic_author_fk: "atomic author_fk = Inr (Some ''Author'')"
  by (simp add: atomic_def render_atomic_type_def base_type_def issubclass_def get_atomic_type'_def
      ATOMIC_TYPES_def isinstance_def author_fk_def author_model_def related_model_name_def)

section \<open>Atomic resolution\<close>

text \<open>
  Claim C1. The scan returns the first key the descriptor is an \<^emph>\<open>instance\<close> of
  (\<open>scan_atomic_Inr_iff\<close>, \<open>scan_atomic_first_match\<close>), but it never tests whether the
  descriptor \<^emph>\<open>is\<close> a key or a subclass of one, although the docstring of
  \<^verbatim>\<open>_get_atomic_type\<close> says "either an instance of, or a subclass of". So for every class
  object, a key of the table included, the scan runs out of keys and raises; the class
  \<^verbatim>\<open>str\<close>, the first key of the table, cannot be transpiled.
\<close>

theorem class_object_never_resolves:
  "get_atomic_type' (PClass c) = Inl (TranspileError (PClass c))
   \<and> transpile str_class = Inl (TranspileError str_class)"
  by (simp add: class_never_scanned transpile_def atomic_def render_atomic_type_def base_type_def
      issubclass_def str_class_def)

text \<open>
  Claim C2. A descriptor with no origin marker that is not a model (class or instance)
  and is an instance of no key of the atomic table makes \<^verbatim>\<open>transpile\<close> raise
  \<^verbatim>\<open>TranspileError\<close> with that descriptor; no string is returned.
\<close>

theorem unresolved_descriptor_raises:
  assumes "\<not> truthy (get_origin d)"
    and "\<not> issubclass (base_class d) ''Model''"
    and "\<not> (\<exists>k. Some k \<in> set (map fst ATOMIC_TYPES) \<and> isinstance d k)"
  shows "transpile d = Inl (TranspileError d)"
proof -
  from assms(3) have "\<forall>k. Some k \<in> set (map fst ATOMIC_TYPES) \<longrightarrow> \<not> isinstance d k" by blast
  then have "get_atomic_type' d = Inl (TranspileError d)"
    unfolding get_atomic_type'_def by (rule scan_atomic_exhausted)
  with assms(1,2) show ?thesis
    by (simp add: transpile_def atomic_def render_atomic_type_def base_type_def)
qed

text \<open>The theorem at a decimal value, whose class is no key of the table.\<close>

theorem unresolved_descriptor_raises_witness:
  "\<not> truthy (get_origin decimal_value)
   \<and> \<not> issubclass (base_class decimal_value) ''Model''
   \<and> \<not> (\<exists>k. Some k \<in> set (map fst ATOMIC_TYPES) \<and> isinstance decimal_value k)
   \<and> transpile decimal_value = Inl (TranspileError decimal_value)"
proof -
  have a: "\<not> truthy (get_origin decimal_value)" by (simp add: decimal_value_def)
  have b: "\<not> issubclass (base_class decimal_value) ''Model''"
    by (simp add: decimal_value_def issubclass_def)
  have "\<forall>k. Some k \<in> set (map fst ATOMIC_TYPES) \<longrightarrow> \<not> isinstance decimal_value k"
    by (simp add: decimal_value_def ATOMIC_TYPES_def isinstance_def issubclass_def)
  then have c: "\<not> (\<exists>k. Some k \<in> set (map fst ATOMIC_TYPES) \<and> isinstance decimal_value k)"
    by blast
  from a b c unresolved_descriptor_raises [OF a b c] show ?thesis by blast
qed

section \<open>The dispatcher\<close>

text \<open>
  Claim C3. A sequence of a union of a type \<open>x\<close> and \<^verbatim>\<open>None\<close> never renders: as the nested
  pair \<^verbatim>\<open>(List, ((Union, (x, None)),))\<close> the dispatcher expects, the child \<^verbatim>\<open>None\<close> is
  an instance of no key (the key \<^verbatim>\<open>None\<close> is skipped by the scan and never compared), so
  the call raises for every \<open>x\<close>; from the entry point, the inner union reaches the
  single-element rule as one raw descriptor and is reported as unresolved.
\<close>

theorem nested_union_with_none_raises:
  "(\<exists>e. transpile' (PTuple [PSpecial ''List'',
            PTuple [PTuple [PSpecial ''Union'', PTuple [x, PNone]]]]) = Inl e)
   \<and> transpile (PGeneric (PSpecial ''List'') [PGeneric (PSpecial ''Union'') [x, PNone]])
       = Inl (TranspileError (PGeneric (PSpecial ''Union'') [x, PNone]))"
proof
  have "\<exists>e. sequence [transpile' x, transpile' PNone] = Inl e"
    by (cases "transpile' x") (simp_all add: atomic_None)
  then show "\<exists>e. transpile' (PTuple [PSpecial ''List'',
            PTuple [PTuple [PSpecial ''Union'', PTuple [x, PNone]]]]) = Inl e"
    by (auto simp add: lookup_List lookup_Union)
next
  show "transpile (PGeneric (PSpecial ''List'') [PGeneric (PSpecial ''Union'') [x, PNone]])
       = Inl (TranspileError (PGeneric (PSpecial ''Union'') [x, PNone]))"
    by (simp add: transpile_def lookup_List lookup_not_ident atomic_generic)
qed

text \<open>
  The composite branch on any number of children: when every child renders to a string,
  the result is the join of the renderings in the order of the children.
\<close>

lemma composite_join_children:
  assumes "sequence (map transpile' cs) = Inr rs" and "list_all (\<lambda>r. r \<noteq> None) rs"
  shows "transpile' (PTuple [PSpecial ''Union'', PTuple cs]) = Inr (Some (join '' | '' (map the rs)))"
  using assms by (simp add: lookup_Union py_join_def)

text \<open>
  Claim C4. For a union of two children that render to \<open>ra\<close> and \<open>rb\<close>, the dispatcher on
  the pair \<^verbatim>\<open>(Union, (a, b))\<close> and the entry point on the descriptor both return
  \<open>ra\<close>, then \<^verbatim>\<open>" | "\<close>, then \<open>rb\<close>: the order of the children is kept, and nothing is
  sorted or removed (\<open>a\<close> and \<open>b\<close> may be equal).
\<close>

theorem composite_join_union:
  assumes "transpile' a = Inr (Some ra)" and "transpile' b = Inr (Some rb)"
  shows "transpile' (PTuple [PSpecial ''Union'', PTuple [a, b]]) = Inr (Some (ra @ '' | '' @ rb))
       \<and> transpile (PGeneric (PSpecial ''Union'') [a, b]) = Inr (Some (ra @ '' | '' @ rb))"
  using assms by (simp add: transpile_def lookup_Union py_join_def)

text \<open>The theorem at a string value and a foreign key, in both orders, and at a repeated child.\<close>

theorem composite_join_union_witness:
  "transpile' (PStr ''x'') = Inr (Some ''string'')
   \<and> transpile' author_fk = Inr (Some ''Author'')
   \<and> transpile (PGeneric (PSpecial ''Union'') [PStr ''x'', author_fk]) = Inr (Some ''string | Author'')
   \<and> transpile (PGeneric (PSpecial ''Union'') [author_fk, PStr ''x'']) = Inr (Some ''Author | string'')
   \<and> transpile (PGeneric (PSpecial ''Union'') [PStr ''x'', PStr ''x'']) = Inr (Some ''string | string'')"
proof -
  have a: "transpile' (PStr ''x'') = Inr (Some ''string'')" by (simp add: atomic_str)
  have b: "transpile' author_fk = Inr (Some ''Author'')"
    using atomic_author_fk by (simp add: author_fk_def)
  from a b composite_join_union [OF a b] composite_join_union [OF b a] composite_join_union [OF a a]
  show ?thesis by simp
qed

text \<open>
  A node of two or more elements whose first element is no tuple and no key of the
  composite and container tables falls off the end of \<^verbatim>\<open>_transpile\<close>.
\<close>

lemma unregistered_origin_returns_None:
  assumes "\<not> is_tuple h" and "hashable h"
    and "lookup COMPOSITE_TYPES h = None" and "lookup CONTAINER_TYPES h = None"
  shows "transpile' (PTuple (h # c # rest)) = Inr None"
  using assms by simp

text \<open>
  Claim C5. For the origin \<^verbatim>\<open>Dict\<close>, registered in no table, with two children, neither
  the dispatcher nor the entry point raises: both return \<^verbatim>\<open>None\<close>.
\<close>

theorem unregistered_origin_two_children_returns_None:
  "transpile' (PTuple [PSpecial ''Dict'', PTuple [PStr ''k'', PStr ''v'']]) = Inr None
   \<and> transpile (PGeneric (PSpecial ''Dict'') [PStr ''k'', PStr ''v'']) = Inr None"
  by (simp add: transpile_def lookup_unregistered)

text \<open>
  Claim C6. The one-element rule of \<^verbatim>\<open>_transpile\<close> (lines 126 and 127) tests the length
  of the node, and \<^verbatim>\<open>transpile\<close> always builds the two-element pair of the origin and
  the children. So a descriptor with an origin registered in no table and exactly one
  child is not rendered as its child: for \<^verbatim>\<open>Literal["x"]\<close>, whose child \<^verbatim>\<open>"x"\<close> renders
  as \<^verbatim>\<open>string\<close> on its own, the dispatcher and the entry point fall off the end and
  return \<^verbatim>\<open>None\<close>, as they do for an unregistered origin with several children.
\<close>

theorem unregistered_origin_one_child_returns_None:
  "lookup COMPOSITE_TYPES (PSpecial ''Literal'') = None
   \<and> lookup CONTAINER_TYPES (PSpecial ''Literal'') = None
   \<and> get_origin (PGeneric (PSpecial ''Literal'') [PStr ''x'']) = PSpecial ''Literal''
   \<and> get_args (PGeneric (PSpecial ''Literal'') [PStr ''x'']) = PTuple [PStr ''x'']
   \<and> render_atomic_type (PStr ''x'') = Inr ''string''
   \<and> transpile' (PTuple [PSpecial ''Literal'', PTuple [PStr ''x'']]) = Inr None
   \<and> transpile (PGeneric (PSpecial ''Literal'') [PStr ''x'']) = Inr None"
  by (simp add: transpile_def lookup_unregistered render_atomic_str)

text \<open>
  Claim C7. The table maps the key \<^verbatim>\<open>None\<close> to the null token, but the scan skips that
  key and nothing compares the descriptor with it: transpiling \<^verbatim>\<open>None\<close> raises
  \<^verbatim>\<open>TranspileError\<close>.
\<close>

theorem none_descriptor_raises:
  "map_of ATOMIC_TYPES None = Some (Literal ''null'')
   \<and> transpile PNone = Inl (TranspileError PNone)"
  by (simp add: transpile_def atomic_None ATOMIC_TYPES_def NULL_def)

text \<open>
  A descriptor that resolves to a key of the atomic table has no origin marker: a
  parameterised descriptor is an instance of no key.
\<close>

lemma resolved_has_no_origin: "base_type d = Inr k \<Longrightarrow> get_origin d = PNone"
  by (cases d) (simp_all add: base_type_def issubclass_def generic_never_scanned)

text \<open>
  Claim C8. When the key a descriptor resolves to has a callable renderer \<open>f\<close>,
  \<^verbatim>\<open>transpile\<close> returns what \<open>f\<close> returns on the descriptor itself.
\<close>

theorem callable_renderer_gets_descriptor:
  assumes "base_type d = Inr k"
    and "map_of ATOMIC_TYPES (Some k) = Some (Callable f)"
  shows "transpile d = map_sum id Some (f d)"
  using assms resolved_has_no_origin [OF assms(1)]
  by (simp add: transpile_def atomic_def render_atomic_type_def)

text \<open>
  The theorem at a foreign key, which renders as the name of its related model, and at a
  model class, which renders as its own name.
\<close>

theorem callable_renderer_gets_descriptor_witness:
  "base_type author_fk = Inr ''ForeignKey''
   \<and> map_of ATOMIC_TYPES (Some ''ForeignKey'') = Some (Callable related_model_name)
   \<and> related_model_name author_fk = Inr ''Author''
   \<and> transpile author_fk = Inr (Some ''Author'')
   \<and> base_type author_model = Inr ''Model''
   \<and> map_of ATOMIC_TYPES (Some ''Model'') = Some (Callable class_name)
   \<and> transpile author_model = Inr (Some ''Author'')"
proof -
  have b: "base_type author_fk = Inr ''ForeignKey''"
    by (simp add: base_type_def issubclass_def get_atomic_type'_def ATOMIC_TYPES_def isinstance_def
        author_fk_def)
  have c: "map_of ATOMIC_TYPES (Some ''ForeignKey'') = Some (Callable related_model_name)"
    by (simp add: ATOMIC_TYPES_def)
  have d: "related_model_name author_fk = Inr ''Author''"
    by (simp add: related_model_name_def author_fk_def author_model_def)
  have e: "base_type author_model = Inr ''Model''"
    by (simp add: base_type_def issubclass_def author_model_def)
  have f: "map_of ATOMIC_TYPES (Some ''Model'') = Some (Callable class_name)"
    by (simp add: ATOMIC_TYPES_def)
  have g: "class_name author_model = Inr ''Author''"
    by (simp add: class_name_def author_model_def)
  from b c d e f g callable_renderer_gets_descriptor [OF b c]
    callable_renderer_gets_descriptor [OF e f]
  show ?thesis by simp
qed

text \<open>
  Claim C10. A node whose first element is a tuple is dispatched as that first element;
  the other elements of the node play no part.
\<close>

theorem nested_pair_unwrap: "transpile' (PTuple (PTuple ts # rest)) = transpile' (PTuple ts)"
  by simp

section \<open>What a call does to the registry\<close>

text \<open>Every method returns the state it was given.\<close>

lemma atomic_st_frame: "snd (atomic_st t cls) = cls"
  by (simp add: atomic_st_def render_atomic_type_st_def get_atomic_type_st_def
      split: prod.splits sum.splits option.splits renderer.splits)

lemma each_st_frame:
  "(\<And>x c. x \<in> set xs \<Longrightarrow> snd (f x c) = c) \<Longrightarrow> snd (each_st f xs cls) = cls"
proof (induction xs arbitrary: cls)
  case Nil
  then show ?case by simp
next
  case (Cons x xs)
  have a: "snd (f x cls) = cls" by (rule Cons.prems) simp
  have b: "snd (each_st f xs c) = c" for c by (rule Cons.IH) (simp add: Cons.prems)
  show ?case using a b[of cls]
    by (auto split: prod.splits sum.splits)
qed

lemma transpile_st'_frame: "snd (transpile_st' t cls) = cls"
proof (induction t cls rule: transpile_st'.induct)
  case (1 cls)
  then show ?case by simp
next
  case (2 h rest cls)
  show ?case
  proof (cases "is_tuple h")
    case True
    with 2 show ?thesis by simp
  next
    case nt: False
    show ?thesis
    proof (cases "hashable h")
      case False
      with nt show ?thesis by simp
    next
      case hh: True
      show ?thesis
      proof (cases "lookup (composite_types cls) h")
        case (Some f)
        show ?thesis
        proof (cases rest)
          case Nil
          with nt hh Some show ?thesis by simp
        next
          case (Cons c rest')
          show ?thesis
          proof (cases "iter c")
            case None
            with nt hh Some Cons show ?thesis by simp
          next
            case cs: (Some cs)
            have "snd (each_st transpile_st' cs cls) = cls"
              by (rule each_st_frame) (rule "2.IH"(3)[OF nt _ Some Cons cs], simp_all add: hh)
            with nt hh Some Cons cs show ?thesis
              by (auto split: prod.splits sum.splits)
          qed
        qed
      next
        case None
        show ?thesis
        proof (cases "lookup (container_types cls) h")
          case g: (Some g)
          show ?thesis
          proof (cases rest)
            case Nil
            with nt hh None g show ?thesis by simp
          next
            case (Cons c rest')
            have "snd (transpile_st' c cls) = cls"
              by (rule "2.IH"(2)[OF nt _ None g Cons]) (simp add: hh)
            with nt hh None g Cons show ?thesis
              by (auto split: prod.splits sum.splits)
          qed
        next
          case n2: None
          with nt hh None show ?thesis by (simp add: atomic_st_frame)
        qed
      qed
    qed
  qed
qed (simp_all add: atomic_st_frame)

text \<open>
  On the tables of the class body, the methods with state return what the methods above
  compute from the constants.
\<close>

lemma atomic_st_REGISTRY: "atomic_st t REGISTRY = (atomic t, REGISTRY)"
  by (simp add: atomic_st_def render_atomic_type_st_def get_atomic_type_st_def REGISTRY_def
      atomic_def render_atomic_type_def base_type_def get_atomic_type'_def
      split: sum.splits option.splits renderer.splits)

lemma each_st_pure:
  "(\<And>x. x \<in> set xs \<Longrightarrow> f x cls = (g x, cls)) \<Longrightarrow> each_st f xs cls = (sequence (map g xs), cls)"
proof (induction xs)
  case Nil
  then show ?case by simp
next
  case (Cons x xs)
  have a: "f x cls = (g x, cls)" by (rule Cons.prems) simp
  have b: "each_st f xs cls = (sequence (map g xs), cls)" by (rule Cons.IH) (simp add: Cons.prems)
  show ?case
  proof (cases "g x")
    case (Inl e)
    with a show ?thesis by simp
  next
    case (Inr v)
    with a b show ?thesis by (simp split: sum.splits)
  qed
qed

lemma transpile_st'_REGISTRY: "transpile_st' t REGISTRY = (transpile' t, REGISTRY)"
proof (induction t rule: transpile'.induct)
  case 1
  then show ?case by simp
next
  case (2 h rest)
  have comp: "composite_types REGISTRY = COMPOSITE_TYPES"
    and cont: "container_types REGISTRY = CONTAINER_TYPES"
    by (simp_all add: REGISTRY_def)
  show ?case
  proof (cases "is_tuple h")
    case True
    with 2 show ?thesis by simp
  next
    case nt: False
    show ?thesis
    proof (cases "hashable h")
      case False
      with nt show ?thesis by simp
    next
      case hh: True
      show ?thesis
      proof (cases "lookup COMPOSITE_TYPES h")
        case (Some f)
        show ?thesis
        proof (cases rest)
          case Nil
          with nt hh Some show ?thesis by (simp add: comp)
        next
          case (Cons c rest')
          show ?thesis
          proof (cases "iter c")
            case None
            with nt hh Some Cons show ?thesis by (simp add: comp)
          next
            case cs: (Some cs)
            have "each_st transpile_st' cs REGISTRY = (sequence (map transpile' cs), REGISTRY)"
              by (rule each_st_pure) (rule "2.IH"(3)[OF nt _ Some Cons cs], simp_all add: hh)
            with nt hh Some Cons cs show ?thesis
              by (simp add: comp split: sum.splits)
          qed
        qed
      next
        case None
        show ?thesis
        proof (cases "lookup CONTAINER_TYPES h")
          case g: (Some g)
          show ?thesis
          proof (cases rest)
            case Nil
            with nt hh None g show ?thesis by (simp add: comp cont)
          next
            case (Cons c rest')
            have "transpile_st' c REGISTRY = (transpile' c, REGISTRY)"
              by (rule "2.IH"(2)[OF nt _ None g Cons]) (simp add: hh)
            with nt hh None g Cons show ?thesis
              by (simp add: comp cont split: sum.splits)
          qed
        next
          case n2: None
          with nt hh None show ?thesis by (simp add: comp cont atomic_st_REGISTRY)
        qed
      qed
    qed
  qed
qed (simp_all add: atomic_st_REGISTRY)

text \<open>
  Claim C9. A call of \<^verbatim>\<open>transpile\<close> leaves the three tables as it found them, whatever
  they hold and whether it returns or raises; a second call on the same descriptor,
  started from the state the first one left, gives the same result; and on the tables of
  the class body the result is the function \<open>transpile\<close> of the descriptor alone.
\<close>

theorem transpile_reads_registry_only:
  "snd (transpile_st d cls) = cls
   \<and> fst (transpile_st d (snd (transpile_st d cls))) = fst (transpile_st d cls)
   \<and> transpile_st d REGISTRY = (transpile d, REGISTRY)"
proof -
  have a: "snd (transpile_st d c) = c" for c
    by (simp add: transpile_st_def Let_def atomic_st_frame transpile_st'_frame
        del: transpile_st'.simps)
  have b: "transpile_st d REGISTRY = (transpile d, REGISTRY)"
    by (simp add: transpile_st_def transpile_def Let_def atomic_st_REGISTRY transpile_st'_REGISTRY
        del: transpile_st'.simps transpile'.simps)
  from a b show ?thesis by simp
qed

end
